theory Spec2Isabelle
  imports Main
begin

section \<open>The data model of \<open>types.ts\<close>\<close>

text \<open>
  \<open>AppState\<close> and \<open>CaptureMode\<close> are the two enums of \<open>types.ts\<close>. The union type
  \<open>'image' | 'video'\<close> of \<open>ImageFile.type\<close> is the datatype \<open>MediaType\<close>.
\<close>

datatype AppState = IDLE | RECORDING | ANALYZING | VIEWING | EDITING | ERROR

datatype CaptureMode = PHOTO | VIDEO

datatype MediaType = ImageType | VideoType

text \<open>Optional fields (\<open>description?\<close>, \<open>points?\<close>, ...) are options: \<open>None\<close> is \<open>undefined\<close>.\<close>

record AnalysisResult =
  description :: "string option"
  points :: "string list option"

record EditResult =
  imageData :: "string option"
  textResponse :: "string option"

text \<open>
  \<open>ImageFile\<close>: the fields \<open>id\<close> and \<open>type\<close> are \<open>file_id\<close> and \<open>file_type\<close> here.
  \<open>raw\<close> is declared a string, but every construction site computes it as
  \<open>base64String.split(',')[1]\<close>, which is \<open>undefined\<close> for a string without a comma;
  so it is an option.
\<close>

record ImageFile =
  file_id :: string
  preview :: string
  raw :: "string option"
  mimeType :: string
  timestamp :: nat
  file_type :: MediaType
  analysis :: "AnalysisResult option"

type_synonym HistoryItem = ImageFile

section \<open>JavaScript string helpers used by \<open>App.tsx\<close>\<close>

text \<open>\<open>s.split(',')\<close>: the pieces of \<open>s\<close> between commas; \<open>''.split(',')\<close> is \<open>['']\<close>.\<close>

fun split_comma :: "string \<Rightarrow> string list" where
  "split_comma [] = [[]]"
| "split_comma (c # cs) =
     (if c = CHR '','' then [] # split_comma cs
      else (case split_comma cs of
              [] \<Rightarrow> [[c]]
            | w # ws \<Rightarrow> (c # w) # ws))"

text \<open>\<open>xs[1]\<close> of a JavaScript array: \<open>undefined\<close> (\<open>None\<close>) when the array is shorter.\<close>

fun index1 :: "'a list \<Rightarrow> 'a option" where
  "index1 (x # y # ys) = Some y"
| "index1 xs = None"

definition split1 :: "string \<Rightarrow> string option" where
  "split1 s = index1 (split_comma s)"

text \<open>
  \<open>s.trim()\<close> removes white space at both ends. Of the characters a \<open>char\<close> can hold,
  JavaScript's white space and line terminators are tab, line feed, vertical tab, form
  feed, carriage return, space and the no-break space.
\<close>

definition is_ws :: "char \<Rightarrow> bool" where
  "is_ws c = (of_char c \<in> {9, 10, 11, 12, 13, 32, 160 :: nat})"

definition js_trim :: "string \<Rightarrow> string" where
  "js_trim s = rev (dropWhile is_ws (rev (dropWhile is_ws s)))"

text \<open>Truthiness of a value of type \<open>string | null | undefined\<close>: a non-empty string.\<close>

fun truthy :: "string option \<Rightarrow> bool" where
  "truthy None = False"
| "truthy (Some s) = (s \<noteq> [])"

text \<open>\<open>n.toString()\<close> of a non-negative integer: its decimal digits.\<close>

definition digit :: "nat \<Rightarrow> char" where
  "digit d = char_of (48 + d)"

function toString :: "nat \<Rightarrow> string" where
  "toString n = (if n < 10 then [digit n] else toString (n div 10) @ [digit (n mod 10)])"
  by pat_completeness auto
termination
  by (relation "measure (\<lambda>n. n)") auto

declare toString.simps [simp del]

text \<open>\<open>s.startsWith('video')\<close>.\<close>

definition startsWith_video :: "string \<Rightarrow> bool" where
  "startsWith_video s = (take 5 s = ''video'')"

section \<open>The history store\<close>

text \<open>
  \<open>addToHistory\<close> is \<open>setHistory(prev => [item, ...prev].slice(0, 50))\<close>: the functional
  update, as a function of the previous list.
\<close>

definition addToHistory :: "HistoryItem \<Rightarrow> HistoryItem list \<Rightarrow> HistoryItem list" where
  "addToHistory item prev = take 50 (item # prev)"

text \<open>\<open>deleteHistoryItem\<close>: \<open>prev.filter(i => i.id !== id)\<close>.\<close>

definition deleteHistoryItem :: "string \<Rightarrow> HistoryItem list \<Rightarrow> HistoryItem list" where
  "deleteHistoryItem i prev = filter (\<lambda>x. file_id x \<noteq> i) prev"

section \<open>The browser objects the component holds\<close>

text \<open>
  A \<open>MediaStream\<close> returned by \<open>getUserMedia\<close> has one video track and, when audio was
  requested, one audio track. Streams are numbered in the order they are created.
  \<open>liveTracks\<close> below is the list of tracks that have not been stopped: the device
  handles the page holds.
\<close>

record MediaStream =
  stream_id :: nat
  hasAudio :: bool

datatype track = VideoTrack nat | AudioTrack nat

definition getTracks :: "MediaStream \<Rightarrow> track list" where
  "getTracks s =
     VideoTrack (stream_id s) # (if hasAudio s then [AudioTrack (stream_id s)] else [])"

text \<open>
  The calls to \<open>services/geminiService\<close> (\<open>analyzeImage\<close>, \<open>analyzeVideo\<close>, \<open>editImage\<close>)
  with their arguments. The service is not part of the sources; a call is recorded when
  it is issued, and its result comes back as a later event.
\<close>

datatype request =
    AnalyzeImage "string option" string
  | AnalyzeVideo "string option" string
  | EditImage "string option" string string

text \<open>The mime types declared by the \<open>editImage\<close> calls in a list of calls.\<close>

fun editMimeTypes :: "request list \<Rightarrow> string list" where
  "editMimeTypes [] = []"
| "editMimeTypes (EditImage src m p # rs) = m # editMimeTypes rs"
| "editMimeTypes (r # rs) = editMimeTypes rs"

text \<open>How a promise settles.\<close>

datatype 'a settled = Resolved 'a | Rejected

text \<open>
  Errors. \<open>InvalidRecordingState\<close> is the error the specification names for
  \<open>startRecording\<close> and \<open>stopRecording\<close>. \<open>NotSupportedError\<close> is the exception that
  \<open>recorder.start()\<close> throws when the stream of the recorder is inactive, that is, has no
  live track. \<open>TypeError\<close> is what JavaScript throws when a property of \<open>null\<close> is read or
  a value that is not a function is called.
\<close>

datatype error = InvalidRecordingState | NotSupportedError | TypeError

section \<open>The state of the \<open>App\<close> component\<close>

text \<open>
  One field per \<open>useState\<close> and \<open>useRef\<close> of \<open>App\<close> that the capture, analysis, edit
  and history code reads or writes, followed by the state of the browser objects behind
  them. Not modelled: the zoom state, the developer panel, the one-second recording
  timer, the recorded chunks, the effect that writes the history back to
  \<open>localStorage\<close>, PDF export and sharing.

  \<^item> \<open>videoRef\<close>: \<open>None\<close> is \<open>videoRef.current === null\<close> (no video element mounted);
    \<open>Some None\<close> is a mounted element whose \<open>srcObject\<close> is null; \<open>Some (Some s)\<close> is a
    mounted element showing the stream \<open>s\<close>.
  \<^item> \<open>effectStream\<close>: the variable \<open>stream\<close> in the closure of the camera effect that
    is currently in place; \<open>effectId\<close> numbers the runs of that effect.
  \<^item> \<open>pendingOpens\<close>: the \<open>getUserMedia\<close> calls that have not settled, each with the
    run of the effect that issued it and whether it asked for audio.
  \<^item> \<open>recorderCount\<close>: how many \<open>MediaRecorder\<close>s have been created; recorders are
    numbered from 0. \<open>activeRecorders\<close>: the recorders started and not stopped, that
    is, those that \<open>recorder.start()\<close> has started and on which the code has not called
    \<open>stop()\<close>; that the browser stops a recorder whose tracks have all ended is not
    shown in it.
  \<^item> \<open>requests\<close>: the service calls issued so far, oldest first.
\<close>

record state =
  appState :: AppState
  captureMode :: CaptureMode
  currentFile :: "ImageFile option"
  editPrompt :: string
  editedImage :: "string option"
  error :: "string option"
  history :: "HistoryItem list"
  showHistory :: bool
  cameraError :: bool
  recordingTime :: nat
  videoRef :: "MediaStream option option"
  videoTrackRef :: "track option"
  mediaRecorderRef :: "nat option"
  effectStream :: "MediaStream option"
  effectId :: nat
  pendingOpens :: "(nat \<times> bool) list"
  streamCount :: nat
  liveTracks :: "track list"
  recorderCount :: nat
  activeRecorders :: "nat list"
  requests :: "request list"

text \<open>The initial values of the \<open>useState\<close> and \<open>useRef\<close> calls.\<close>

definition initial :: state where
  "initial = \<lparr>appState = IDLE, captureMode = PHOTO, currentFile = None, editPrompt = [],
     editedImage = None, error = None, history = [], showHistory = False,
     cameraError = False, recordingTime = 0, videoRef = None, videoTrackRef = None,
     mediaRecorderRef = None, effectStream = None, effectId = 0, pendingOpens = [],
     streamCount = 0, liveTracks = [], recorderCount = 0, activeRecorders = [],
     requests = []\<rparr>"

text \<open>
  How a handler ends: it returns, or it throws; in both cases with the updates it has
  made up to that point.
\<close>

datatype completion = Returned state | Threw error state

fun stateOf :: "completion \<Rightarrow> state" where
  "stateOf (Returned st) = st"
| "stateOf (Threw e st) = st"

section \<open>Loading the history\<close>

text \<open>
  The effect that runs on mount:
  \<^verbatim>\<open>
  const saved = localStorage.getItem('nanoLensHistory');
  if (saved) { try { setHistory(JSON.parse(saved)); } catch (e) { console.error(...); } }
  \<close>
  \<open>saved\<close> is \<open>None\<close> when the key is absent. \<open>JSON.parse\<close> is the parameter \<open>parse\<close>,
  into any type \<open>'v\<close> of JavaScript values: \<open>None\<close> when it throws, otherwise the value
  it returns. The code passes that value to \<open>setHistory\<close> unchecked. The record \<open>state\<close>
  describes the component while its variables hold values of their declared types, so
  its \<open>history\<close> is a list of \<open>ImageFile\<close> records. The parameter \<open>asHistory\<close> says which
  values are such a list, and which: \<open>asHistory v = Some h\<close> when \<open>v\<close> is an array of
  \<open>ImageFile\<close> objects, read as the list \<open>h\<close>, and \<open>None\<close> for every other value.
  Loading gives \<open>WellTyped st\<close> when the component is in a state that \<open>state\<close> describes,
  and \<open>IllTyped v\<close> when its history has become the value \<open>v\<close> that is not a
  \<open>HistoryItem[]\<close>.
\<close>

datatype 'v loaded = WellTyped state | IllTyped 'v

definition loadHistory ::
  "(string \<Rightarrow> 'v option) \<Rightarrow> ('v \<Rightarrow> HistoryItem list option) \<Rightarrow>
     string option \<Rightarrow> state \<Rightarrow> 'v loaded" where
  "loadHistory parse asHistory saved st =
     (case saved of
        None \<Rightarrow> WellTyped st
      | Some s \<Rightarrow>
          if s = [] then WellTyped st
          else (case parse s of
                  None \<Rightarrow> WellTyped st
                | Some v \<Rightarrow>
                    (case asHistory v of
                       Some h \<Rightarrow> WellTyped (st\<lparr>history := h\<rparr>)
                     | None \<Rightarrow> IllTyped v)))"

text \<open>
  JSON values, as \<open>JSON.parse\<close> returns them: a type to instantiate \<open>'v\<close> with. Only
  integers stand for numbers here.
\<close>

datatype json =
    JNull
  | JBool bool
  | JNumber int
  | JString string
  | JArray "json list"
  | JObject "(string \<times> json) list"

text \<open>
  The first thing the history panel evaluates when it is shown is \<open>history.length\<close>
  (\<open>{history.length === 0 ? ... : history.map(...)}\<close>). \<open>historyLength v\<close> is that
  property read on the value \<open>v\<close>: reading a property of \<open>null\<close> throws; a number and a
  boolean have no such property (\<open>None\<close> is \<open>undefined\<close>); a string and an array have
  their length; an object has it if it has a field of that name.
\<close>

fun historyLength :: "json \<Rightarrow> error + json option" where
  "historyLength JNull = Inl TypeError"
| "historyLength (JBool b) = Inr None"
| "historyLength (JNumber n) = Inr None"
| "historyLength (JString s) = Inr (Some (JNumber (int (length s))))"
| "historyLength (JArray vs) = Inr (Some (JNumber (int (length vs))))"
| "historyLength (JObject fs) = Inr (map_of fs ''length'')"

section \<open>Capture and analysis\<close>

text \<open>
  An \<open>async\<close> handler is one function per stretch of code between two \<open>await\<close>s: the
  part that runs when the handler is called, and the part that runs when the awaited
  promise settles. What the continuation reads from its closure is an argument of the
  second function. \<open>Date.now()\<close> is read twice for each new file (\<open>now\<close>, \<open>now'\<close>).
\<close>

definition newImageFile :: "nat \<Rightarrow> nat \<Rightarrow> string \<Rightarrow> string \<Rightarrow> MediaType \<Rightarrow> ImageFile" where
  "newImageFile now now' base64String mime ty =
     \<lparr>file_id = toString now, preview = base64String, raw = split1 base64String,
      mimeType = mime, timestamp = now', file_type = ty, analysis = None\<rparr>"

text \<open>\<open>performAnalysis\<close> up to \<open>await analyzeImage(file.raw, file.mimeType)\<close>.\<close>

definition performAnalysis :: "ImageFile \<Rightarrow> state \<Rightarrow> state" where
  "performAnalysis file st =
     st\<lparr>appState := ANALYZING,
        requests := requests st @ [AnalyzeImage (raw file) (mimeType file)]\<rparr>"

text \<open>\<open>performAnalysis\<close> from the point where \<open>analyzeImage\<close> settles.\<close>

definition performAnalysis_settled ::
  "ImageFile \<Rightarrow> AnalysisResult settled \<Rightarrow> state \<Rightarrow> state" where
  "performAnalysis_settled file outcome st =
     (case outcome of
        Resolved result \<Rightarrow>
          (let fileWithAnalysis = file\<lparr>analysis := Some result\<rparr>
           in st\<lparr>currentFile := Some fileWithAnalysis,
                 history := addToHistory fileWithAnalysis (history st),
                 appState := VIEWING\<rparr>)
      | Rejected \<Rightarrow>
          st\<lparr>error := Some ''Could not analyze image.'', appState := VIEWING\<rparr>)"

text \<open>
  \<open>capturePhoto\<close>. \<open>frame\<close> is what the canvas gives: \<open>None\<close> when \<open>getContext('2d')\<close>
  returns null, otherwise the data URL \<open>canvas.toDataURL('image/jpeg', 0.9)\<close>.
\<close>

definition capturePhoto :: "nat \<Rightarrow> nat \<Rightarrow> string option \<Rightarrow> state \<Rightarrow> state" where
  "capturePhoto now now' frame st =
     (case videoRef st of
        None \<Rightarrow> st
      | Some _ \<Rightarrow>
          (case frame of
             None \<Rightarrow> st
           | Some base64String \<Rightarrow>
               (let newFile = newImageFile now now' base64String ''image/jpeg'' ImageType
                in performAnalysis newFile (st\<lparr>currentFile := Some newFile\<rparr>))))"

text \<open>A stream is active while one of its tracks is live.\<close>

definition streamActive :: "MediaStream \<Rightarrow> state \<Rightarrow> bool" where
  "streamActive s st = (filter (\<lambda>t. t \<in> set (liveTracks st)) (getTracks s) \<noteq> [])"

text \<open>
  \<open>startRecording\<close>. Its only guard is on the video element and its \<open>srcObject\<close>. It has
  no \<open>throw\<close> of its own, but it calls \<open>recorder.start()\<close>, which throws
  \<open>NotSupportedError\<close> when the stream is inactive; \<open>mediaRecorderRef.current = recorder\<close>
  is the line before that call and has then been done, the three lines after it
  (\<open>setAppState(AppState.RECORDING)\<close>, \<open>setRecordingTime(0)\<close>, the timer) have not. The
  \<open>onstop\<close> callback it installs is \<open>recorder_onstop\<close> below.
\<close>

definition startRecording :: "state \<Rightarrow> completion" where
  "startRecording st =
     (case videoRef st of
        None \<Rightarrow> Returned st
      | Some None \<Rightarrow> Returned st
      | Some (Some stream) \<Rightarrow>
          (let st1 = st\<lparr>mediaRecorderRef := Some (recorderCount st),
                        recorderCount := Suc (recorderCount st)\<rparr>
           in if \<not> streamActive stream st then Threw NotSupportedError st1
              else Returned (st1\<lparr>activeRecorders := activeRecorders st @ [recorderCount st],
                                 appState := RECORDING,
                                 recordingTime := 0\<rparr>)))"

text \<open>
  \<open>stopRecording\<close>: one \<open>if\<close> with no \<open>else\<close>, and no \<open>throw\<close>. Under the condition it
  calls \<open>recorder.stop()\<close>, taken here as the MediaStream Recording specification
  defines it: on a recorder that is already inactive it does nothing, and it does not
  throw.
\<close>

definition stopRecording :: "state \<Rightarrow> completion" where
  "stopRecording st =
     (case mediaRecorderRef st of
        None \<Rightarrow> Returned st
      | Some r \<Rightarrow>
          if appState st = RECORDING
          then Returned (st\<lparr>activeRecorders := removeAll r (activeRecorders st)\<rparr>)
          else Returned st)"

definition handleCapture :: "nat \<Rightarrow> nat \<Rightarrow> string option \<Rightarrow> state \<Rightarrow> completion" where
  "handleCapture now now' frame st =
     (if captureMode st = PHOTO then Returned (capturePhoto now now' frame st)
      else if appState st = IDLE then startRecording st
      else if appState st = RECORDING then stopRecording st
      else Returned st)"

text \<open>
  \<open>recorder.onstop\<close>, after \<open>await blobToBase64(blob)\<close> has settled with \<open>read\<close> (a
  rejection there ends the callback), up to \<open>await analyzeVideo(...)\<close>.
\<close>

definition recorder_onstop :: "nat \<Rightarrow> nat \<Rightarrow> string settled \<Rightarrow> state \<Rightarrow> state" where
  "recorder_onstop now now' read st =
     (case read of
        Rejected \<Rightarrow> st
      | Resolved base64String \<Rightarrow>
          (let newFile = newImageFile now now' base64String ''video/webm'' VideoType
           in st\<lparr>currentFile := Some newFile,
                 appState := ANALYZING,
                 requests := requests st @ [AnalyzeVideo (raw newFile) (mimeType newFile)]\<rparr>))"

definition recorder_onstop_settled ::
  "ImageFile \<Rightarrow> AnalysisResult settled \<Rightarrow> state \<Rightarrow> state" where
  "recorder_onstop_settled newFile outcome st =
     (case outcome of
        Resolved result \<Rightarrow>
          (let fileWithAnalysis = newFile\<lparr>analysis := Some result\<rparr>
           in st\<lparr>currentFile := Some fileWithAnalysis,
                 history := addToHistory fileWithAnalysis (history st),
                 appState := VIEWING\<rparr>)
      | Rejected \<Rightarrow>
          st\<lparr>error := Some ''Video analysis failed.'', appState := VIEWING\<rparr>)"

text \<open>
  \<open>handleFileSelect\<close>, in three parts: up to \<open>await blobToBase64(file)\<close> (the argument
  is \<open>file.type\<close> of \<open>event.target.files?.[0]\<close>, \<open>None\<close> when there is no file); from
  there to the analysis call; and, for a video, from the point where \<open>analyzeVideo\<close>
  settles. For an image the third part is \<open>performAnalysis_settled\<close>.
\<close>

definition handleFileSelect :: "string option \<Rightarrow> state \<Rightarrow> state" where
  "handleFileSelect file st =
     (case file of
        None \<Rightarrow> st
      | Some ftype \<Rightarrow> st\<lparr>editedImage := None, editPrompt := [], error := None\<rparr>)"

definition handleFileSelect_read ::
  "string \<Rightarrow> nat \<Rightarrow> nat \<Rightarrow> string settled \<Rightarrow> state \<Rightarrow> state" where
  "handleFileSelect_read ftype now now' read st =
     (case read of
        Rejected \<Rightarrow> st\<lparr>error := Some ''Failed to process file.'', appState := IDLE\<rparr>
      | Resolved base64String \<Rightarrow>
          (let isVideo = startsWith_video ftype;
               newFile = newImageFile now now' base64String ftype
                           (if isVideo then VideoType else ImageType);
               st1 = st\<lparr>currentFile := Some newFile\<rparr>
           in if isVideo
              then st1\<lparr>appState := ANALYZING,
                       requests := requests st1 @ [AnalyzeVideo (raw newFile) (mimeType newFile)]\<rparr>
              else performAnalysis newFile st1))"

definition handleFileSelect_videoSettled ::
  "ImageFile \<Rightarrow> AnalysisResult settled \<Rightarrow> state \<Rightarrow> state" where
  "handleFileSelect_videoSettled newFile outcome st =
     (case outcome of
        Resolved result \<Rightarrow>
          (let fileWithAnalysis = newFile\<lparr>analysis := Some result\<rparr>
           in st\<lparr>currentFile := Some fileWithAnalysis,
                 history := addToHistory fileWithAnalysis (history st),
                 appState := VIEWING\<rparr>)
      | Rejected \<Rightarrow>
          st\<lparr>error := Some ''Failed to process file.'', appState := IDLE\<rparr>)"

section \<open>History, reset and edit\<close>

definition restoreHistoryItem :: "HistoryItem \<Rightarrow> state \<Rightarrow> state" where
  "restoreHistoryItem item st =
     st\<lparr>currentFile := Some item, editedImage := None, editPrompt := [],
        showHistory := False, appState := VIEWING\<rparr>"

definition resetApp :: "state \<Rightarrow> state" where
  "resetApp st =
     st\<lparr>currentFile := None, editedImage := None, editPrompt := [],
        appState := IDLE, recordingTime := 0\<rparr>"

text \<open>
  The first argument of \<open>editImage\<close>:
  \<open>editedImage ? editedImage.split(',')[1] : currentFile.raw\<close>.
\<close>

definition sourceImageRaw :: "state \<Rightarrow> ImageFile \<Rightarrow> string option" where
  "sourceImageRaw st file =
     (case editedImage st of
        None \<Rightarrow> raw file
      | Some e \<Rightarrow> if e = [] then raw file else split1 e)"

text \<open>\<open>handleEditSubmit\<close> up to \<open>await editImage(sourceImageRaw, "image/png", editPrompt)\<close>.\<close>

definition handleEditSubmit :: "state \<Rightarrow> state" where
  "handleEditSubmit st =
     (case currentFile st of
        None \<Rightarrow> st
      | Some file \<Rightarrow>
          if js_trim (editPrompt st) = [] \<or> file_type file = VideoType then st
          else st\<lparr>appState := EDITING,
                  error := None,
                  requests := requests st @
                    [EditImage (sourceImageRaw st file) ''image/png'' (editPrompt st)]\<rparr>)"

text \<open>
  \<open>handleEditSubmit\<close> from the point where \<open>editImage\<close> settles: the rest of the \<open>try\<close>,
  the \<open>catch\<close>, and the \<open>finally\<close>.
\<close>

definition handleEditSubmit_settled :: "EditResult settled \<Rightarrow> state \<Rightarrow> state" where
  "handleEditSubmit_settled outcome st =
     (let st1 =
        (case outcome of
           Resolved result \<Rightarrow>
             (case imageData result of
                Some d \<Rightarrow>
                  if d \<noteq> []
                  then st\<lparr>editedImage := Some (''data:image/png;base64,'' @ d), editPrompt := []\<rparr>
                  else if truthy (textResponse result) then st\<lparr>error := textResponse result\<rparr>
                  else st\<lparr>error := Some ''No changes generated.''\<rparr>
              | None \<Rightarrow>
                  if truthy (textResponse result) then st\<lparr>error := textResponse result\<rparr>
                  else st\<lparr>error := Some ''No changes generated.''\<rparr>)
         | Rejected \<Rightarrow> st\<lparr>error := Some ''Failed to edit image.''\<rparr>)
      in st1\<lparr>appState := VIEWING\<rparr>)"

section \<open>What is rendered\<close>

text \<open>
  The result view is rendered under
  \<open>(appState === VIEWING || appState === EDITING || appState === ANALYZING) && currentFile\<close>.
  For an image it shows \<open><img src={editedImage || currentFile.preview}>\<close>; for a video
  it shows the video and no image.
\<close>

definition viewRendered :: "state \<Rightarrow> bool" where
  "viewRendered st =
     ((appState st = VIEWING \<or> appState st = EDITING \<or> appState st = ANALYZING)
      \<and> currentFile st \<noteq> None)"

definition imgSrc :: "state \<Rightarrow> ImageFile \<Rightarrow> string" where
  "imgSrc st file =
     (case editedImage st of
        None \<Rightarrow> preview file
      | Some e \<Rightarrow> if e = [] then preview file else e)"

definition displayedImage :: "state \<Rightarrow> string option" where
  "displayedImage st =
     (case currentFile st of
        None \<Rightarrow> None
      | Some file \<Rightarrow>
          if viewRendered st \<and> file_type file = ImageType then Some (imgSrc st file)
          else None)"

text \<open>
  The edit form is inside the result view, under \<open>currentFile.type === 'image'\<close>. Its
  submit button has \<open>disabled={!editPrompt.trim() || appState === AppState.EDITING}\<close>,
  and its text input is disabled while \<open>appState === AppState.EDITING\<close>. The form's
  \<open>onSubmit\<close> is \<open>handleEditSubmit\<close>; a browser does not submit a form through a
  disabled submit button, neither by a click nor by the Enter key in its text input.
  \<open>submitEditForm\<close> is the user's attempt to submit the form.
\<close>

definition editFormRendered :: "state \<Rightarrow> bool" where
  "editFormRendered st =
     (viewRendered st \<and>
      (case currentFile st of None \<Rightarrow> False | Some file \<Rightarrow> file_type file = ImageType))"

definition submitDisabled :: "state \<Rightarrow> bool" where
  "submitDisabled st = (js_trim (editPrompt st) = [] \<or> appState st = EDITING)"

definition submitEditForm :: "state \<Rightarrow> state" where
  "submitEditForm st =
     (if editFormRendered st \<and> \<not> submitDisabled st then handleEditSubmit st else st)"

section \<open>The camera effect\<close>

text \<open>
  The video element is rendered under
  \<open>appState === IDLE || appState === RECORDING\<close> and \<open>!cameraError\<close>. \<open>render\<close> brings
  \<open>videoRef\<close> in line with that: a newly mounted element has no \<open>srcObject\<close>, an
  element that stays mounted keeps its own, and \<open>videoRef.current\<close> is null when none
  is mounted.
\<close>

definition videoRendered :: "state \<Rightarrow> bool" where
  "videoRendered st = ((appState st = IDLE \<or> appState st = RECORDING) \<and> \<not> cameraError st)"

definition render :: "state \<Rightarrow> state" where
  "render st =
     (if videoRendered st
      then (case videoRef st of None \<Rightarrow> st\<lparr>videoRef := Some None\<rparr> | Some _ \<Rightarrow> st)
      else st\<lparr>videoRef := None\<rparr>)"

text \<open>\<open>track.stop()\<close> on each of the given tracks.\<close>

definition stopTracks :: "track list \<Rightarrow> state \<Rightarrow> state" where
  "stopTracks ts st = st\<lparr>liveTracks := filter (\<lambda>t. t \<notin> set ts) (liveTracks st)\<rparr>"

text \<open>
  The two statements that the \<open>else\<close> branch of the effect and its cleanup share:
  \<^verbatim>\<open>
  if (stream) { stream.getTracks().forEach(track => track.stop()); }
  if (videoTrackRef.current) { videoTrackRef.current.stop(); }
  \<close>
\<close>

definition stopStreamAndTrack :: "MediaStream option \<Rightarrow> state \<Rightarrow> state" where
  "stopStreamAndTrack stream st =
     (let st1 = (case stream of None \<Rightarrow> st | Some s \<Rightarrow> stopTracks (getTracks s) st)
      in (case videoTrackRef st1 of None \<Rightarrow> st1 | Some t \<Rightarrow> stopTracks [t] st1))"

text \<open>
  \<open>startCamera\<close> up to \<open>await navigator.mediaDevices.getUserMedia(...)\<close>, with
  \<open>audio: captureMode === CaptureMode.VIDEO\<close>.
\<close>

definition startCamera :: "state \<Rightarrow> state" where
  "startCamera st =
     (if appState st \<noteq> IDLE \<and> appState st \<noteq> RECORDING then st
      else render (st\<lparr>cameraError := False,
                       pendingOpens := pendingOpens st @ [(effectId st, captureMode st = VIDEO)]\<rparr>))"

text \<open>
  \<open>startCamera\<close> from the point where \<open>getUserMedia\<close> settles, for the call issued by
  run \<open>run\<close> of the effect. The variable \<open>stream\<close> it assigns belongs to that run: it is
  the \<open>effectStream\<close> only if that run is still the one in place.
\<close>

definition startCamera_settled :: "nat \<Rightarrow> bool \<Rightarrow> unit settled \<Rightarrow> state \<Rightarrow> state" where
  "startCamera_settled run audio outcome st =
     (if (run, audio) \<notin> set (pendingOpens st) then st
      else
        (let st1 = st\<lparr>pendingOpens := remove1 (run, audio) (pendingOpens st)\<rparr>
         in case outcome of
              Rejected \<Rightarrow> render (st1\<lparr>cameraError := True\<rparr>)
            | Resolved _ \<Rightarrow>
                (let stream = \<lparr>stream_id = streamCount st1, hasAudio = audio\<rparr>
                 in st1\<lparr>streamCount := Suc (streamCount st1),
                        liveTracks := liveTracks st1 @ getTracks stream,
                        effectStream := (if run = effectId st1 then Some stream
                                         else effectStream st1),
                        videoRef := (case videoRef st1 of
                                       None \<Rightarrow> None
                                     | Some _ \<Rightarrow> Some (Some stream)),
                        videoTrackRef := Some (VideoTrack (stream_id stream))\<rparr>)))"

text \<open>The function the effect returns, run before the next run of the effect.\<close>

definition cameraCleanup :: "state \<Rightarrow> state" where
  "cameraCleanup st = stopStreamAndTrack (effectStream st) st"

text \<open>
  The body of the effect: a new run with its own \<open>stream = null\<close>, then
  \<open>if (appState === AppState.IDLE) startCamera(); else { ... }\<close>.
\<close>

definition cameraEffect :: "state \<Rightarrow> state" where
  "cameraEffect st =
     (let st1 = st\<lparr>effectStream := None, effectId := Suc (effectId st)\<rparr>
      in if appState st1 = IDLE then startCamera st1
         else stopStreamAndTrack None st1)"

text \<open>
  After a handler has run, React renders and, when one of the dependencies
  \<open>[appState, captureMode]\<close> has changed, runs the cleanup of the previous run of the
  effect and then the effect again.
\<close>

definition commit :: "state \<Rightarrow> state \<Rightarrow> state" where
  "commit old new =
     (let st = render new
      in if appState st = appState old \<and> captureMode st = captureMode old then st
         else cameraEffect (cameraCleanup st))"

text \<open>
  Mounting the component: the first render, the effect that loads the history, and the
  first run of the camera effect. \<open>mounted h\<close> is the mounted component when the load
  has left the list \<open>h\<close> as the history.
\<close>

definition mounted :: "HistoryItem list \<Rightarrow> state" where
  "mounted h = cameraEffect ((render initial)\<lparr>history := h\<rparr>)"

definition mount ::
  "(string \<Rightarrow> 'v option) \<Rightarrow> ('v \<Rightarrow> HistoryItem list option) \<Rightarrow> string option \<Rightarrow> 'v loaded" where
  "mount parse asHistory saved =
     (case loadHistory parse asHistory saved (render initial) of
        WellTyped st \<Rightarrow> WellTyped (cameraEffect st)
      | IllTyped v \<Rightarrow> IllTyped v)"

section \<open>Events\<close>

text \<open>
  Everything that can happen to the mounted component: a user action on one of its
  controls, or the settling of a promise one of its handlers awaits. \<open>handler\<close> runs the
  code of the event, and \<open>step\<close> adds the render and the effect that follow, also
  after a handler that has thrown.
\<close>

datatype event =
    SetCaptureMode CaptureMode
  | SetShowHistory bool
  | SetEditPrompt string
  | UndoEdit
  | ResetApp
  | HandleCapture nat nat "string option"
  | RecorderStopped nat nat "string settled"
  | RecordedVideoSettled ImageFile "AnalysisResult settled"
  | HandleFileSelect "string option"
  | FileRead string nat nat "string settled"
  | FileVideoSettled ImageFile "AnalysisResult settled"
  | AnalysisSettled ImageFile "AnalysisResult settled"
  | SubmitEditForm
  | EditSettled "EditResult settled"
  | RestoreHistoryItem HistoryItem
  | DeleteHistoryItem string
  | GetUserMediaSettled nat bool "unit settled"

fun handler :: "event \<Rightarrow> state \<Rightarrow> completion" where
  "handler (SetCaptureMode m) st = Returned (st\<lparr>captureMode := m\<rparr>)"
| "handler (SetShowHistory b) st = Returned (st\<lparr>showHistory := b\<rparr>)"
| "handler (SetEditPrompt p) st = Returned (st\<lparr>editPrompt := p\<rparr>)"
| "handler UndoEdit st = Returned (st\<lparr>editedImage := None\<rparr>)"
| "handler ResetApp st = Returned (resetApp st)"
| "handler (HandleCapture now now' frame) st = handleCapture now now' frame st"
| "handler (RecorderStopped now now' read) st = Returned (recorder_onstop now now' read st)"
| "handler (RecordedVideoSettled file outcome) st = Returned (recorder_onstop_settled file outcome st)"
| "handler (HandleFileSelect file) st = Returned (handleFileSelect file st)"
| "handler (FileRead ftype now now' read) st = Returned (handleFileSelect_read ftype now now' read st)"
| "handler (FileVideoSettled file outcome) st = Returned (handleFileSelect_videoSettled file outcome st)"
| "handler (AnalysisSettled file outcome) st = Returned (performAnalysis_settled file outcome st)"
| "handler SubmitEditForm st = Returned (submitEditForm st)"
| "handler (EditSettled outcome) st = Returned (handleEditSubmit_settled outcome st)"
| "handler (RestoreHistoryItem item) st = Returned (restoreHistoryItem item st)"
| "handler (DeleteHistoryItem i) st = Returned (st\<lparr>history := deleteHistoryItem i (history st)\<rparr>)"
| "handler (GetUserMediaSettled run audio outcome) st = Returned (startCamera_settled run audio outcome st)"

definition step :: "event \<Rightarrow> state \<Rightarrow> state" where
  "step ev st = commit st (stateOf (handler ev st))"

fun run :: "event list \<Rightarrow> state \<Rightarrow> state" where
  "run [] st = st"
| "run (ev # evs) st = run evs (step ev st)"

text \<open>
  \<open>staysIn a evs st\<close>: the state is in \<open>a\<close> at \<open>st\<close> and after each event of \<open>evs\<close> in
  turn.
\<close>

fun staysIn :: "AppState \<Rightarrow> event list \<Rightarrow> state \<Rightarrow> bool" where
  "staysIn a [] st = (appState st = a)"
| "staysIn a (ev # evs) st = (appState st = a \<and> staysIn a evs (step ev st))"

text \<open>\<open>statesBefore evs st\<close>: the \<open>appState\<close> in which each event of \<open>evs\<close> happens.\<close>

fun statesBefore :: "event list \<Rightarrow> state \<Rightarrow> AppState list" where
  "statesBefore [] st = []"
| "statesBefore (ev # evs) st = appState st # statesBefore evs (step ev st)"

text \<open>
  The \<open>editImage\<close> calls that are outstanding after the events \<open>evs\<close> from \<open>st\<close>: those
  issued during \<open>evs\<close>, less those that settled during \<open>evs\<close> (each \<open>EditSettled\<close> event
  is the settling of one call).
\<close>

fun isEditSettled :: "event \<Rightarrow> bool" where
  "isEditSettled (EditSettled outcome) = True"
| "isEditSettled ev = False"

definition editCallsOutstanding :: "event list \<Rightarrow> state \<Rightarrow> nat" where
  "editCallsOutstanding evs st =
     (length (editMimeTypes (requests (run evs st))) - length (editMimeTypes (requests st)))
     - length (filter isEditSettled evs)"

section \<open>Example values\<close>

text \<open>A photo as \<open>capturePhoto\<close> builds it at time \<open>n\<close>.\<close>

definition examplePhoto :: "nat \<Rightarrow> ImageFile" where
  "examplePhoto n = newImageFile n n ''data:image/jpeg;base64,QUJD'' ''image/jpeg'' ImageType"

text \<open>
  \<open>JSON.parse\<close> on four payloads: \<open>null\<close>, \<open>[]\<close> and \<open>[7,3]\<close>, which parse, and \<open>[7,\<close>,
  which does not. It is used on no other string.
\<close>

definition exampleParse :: "string \<Rightarrow> json option" where
  "exampleParse s =
     (if s = ''null'' then Some JNull
      else if s = ''[]'' then Some (JArray [])
      else if s = ''[7,3]'' then Some (JArray [JNumber 7, JNumber 3])
      else None)"

text \<open>
  The JSON values that are a \<open>HistoryItem[]\<close>: arrays of objects that have the fields of
  \<open>ImageFile\<close> with values of their declared types, \<open>raw\<close> and \<open>analysis\<close> being allowed
  to be absent, and the timestamp being a natural number, as \<open>Date.now()\<close> gives.
\<close>

fun allSome :: "'a option list \<Rightarrow> 'a list option" where
  "allSome [] = Some []"
| "allSome (None # xs) = None"
| "allSome (Some x # xs) = map_option ((#) x) (allSome xs)"

fun asString :: "json \<Rightarrow> string option" where
  "asString (JString s) = Some s"
| "asString v = None"

fun asStrings :: "json \<Rightarrow> string list option" where
  "asStrings (JArray vs) = allSome (map asString vs)"
| "asStrings v = None"

fun asTimestamp :: "json \<Rightarrow> nat option" where
  "asTimestamp (JNumber n) = (if 0 \<le> n then Some (nat n) else None)"
| "asTimestamp v = None"

fun asMediaType :: "json \<Rightarrow> MediaType option" where
  "asMediaType (JString s) =
     (if s = ''image'' then Some ImageType
      else if s = ''video'' then Some VideoType
      else None)"
| "asMediaType v = None"

definition optionalField :: "(json \<Rightarrow> 'a option) \<Rightarrow> json option \<Rightarrow> 'a option option" where
  "optionalField dec v = (case v of None \<Rightarrow> Some None | Some j \<Rightarrow> map_option Some (dec j))"

fun asAnalysis :: "json \<Rightarrow> AnalysisResult option" where
  "asAnalysis (JObject fs) =
     Option.bind (optionalField asString (map_of fs ''description'')) (\<lambda>d.
     Option.bind (optionalField asStrings (map_of fs ''points'')) (\<lambda>p.
     Some \<lparr>description = d, points = p\<rparr>))"
| "asAnalysis v = None"

fun asImageFile :: "json \<Rightarrow> ImageFile option" where
  "asImageFile (JObject fs) =
     Option.bind (Option.bind (map_of fs ''id'') asString) (\<lambda>i.
     Option.bind (Option.bind (map_of fs ''preview'') asString) (\<lambda>p.
     Option.bind (optionalField asString (map_of fs ''raw'')) (\<lambda>r.
     Option.bind (Option.bind (map_of fs ''mimeType'') asString) (\<lambda>m.
     Option.bind (Option.bind (map_of fs ''timestamp'') asTimestamp) (\<lambda>t.
     Option.bind (Option.bind (map_of fs ''type'') asMediaType) (\<lambda>ty.
     Option.bind (optionalField asAnalysis (map_of fs ''analysis'')) (\<lambda>a.
     Some \<lparr>file_id = i, preview = p, raw = r, mimeType = m, timestamp = t,
           file_type = ty, analysis = a\<rparr>)))))))"
| "asImageFile v = None"

fun exampleAsHistory :: "json \<Rightarrow> HistoryItem list option" where
  "exampleAsHistory (JArray vs) = allSome (map asImageFile vs)"
| "exampleAsHistory v = None"

text \<open>
  States reached from mounting with an empty store. \<open>cameraReady\<close>: the camera has
  opened in photo mode. \<open>videoReady\<close>: the user has switched to video mode and the
  camera has opened again, with audio. \<open>recording\<close>: the user has then pressed the
  capture button.
\<close>

definition cameraReady :: state where
  "cameraReady = run [GetUserMediaSettled 1 False (Resolved ())] (mounted [])"

definition videoReady :: state where
  "videoReady = run [SetCaptureMode VIDEO, GetUserMediaSettled 2 True (Resolved ())] cameraReady"



text \<open>
  \<open>viewingPhoto\<close>: a photo has been taken and analysed. \<open>promptedPhoto\<close>: the user has
  typed an edit instruction. \<open>editingPhoto\<close>: and submitted it. \<open>editedPhoto\<close>: the
  service has returned an image. \<open>promptedEdited\<close>: the user has typed a second
  instruction.
\<close>

definition exampleAnalysis :: AnalysisResult where
  "exampleAnalysis = \<lparr>description = Some ''a cup'', points = Some [''It is a cup.'']\<rparr>"

definition viewingPhoto :: state where
  "viewingPhoto =
     run [HandleCapture 1700 1700 (Some ''data:image/jpeg;base64,QUJD''),
          AnalysisSettled (examplePhoto 1700) (Resolved exampleAnalysis)] cameraReady"

definition promptedPhoto :: state where
  "promptedPhoto = step (SetEditPrompt ''make it blue'') viewingPhoto"

definition editingPhoto :: state where
  "editingPhoto = step SubmitEditForm promptedPhoto"

definition editedPhoto :: state where
  "editedPhoto =
     step (EditSettled (Resolved \<lparr>imageData = Some ''QkxVRQ'', textResponse = None\<rparr>)) editingPhoto"

definition promptedEdited :: state where
  "promptedEdited = step (SetEditPrompt ''add a hat'') editedPhoto"

text \<open>
  From \<open>viewingPhoto\<close>: the user goes back to the camera, selects an image file (whose
  reading takes a while), opens the history and restores the analysed photo, types an
  instruction and submits it; then the file has been read and its analysis settles;
  the user types a second instruction and submits it. No edit call has settled.
\<close>

definition secondEditRun :: "event list" where
  "secondEditRun =
     [ResetApp,
      HandleFileSelect (Some ''image/png''),
      SetShowHistory True,
      RestoreHistoryItem ((examplePhoto 1700)\<lparr>analysis := Some exampleAnalysis\<rparr>),
      SetEditPrompt ''make it blue'',
      SubmitEditForm,
      FileRead ''image/png'' 1800 1800 (Resolved ''data:image/png;base64,UE5H''),
      AnalysisSettled
        (newImageFile 1800 1800 ''data:image/png;base64,UE5H'' ''image/png'' ImageType)
        (Resolved exampleAnalysis),
      SetEditPrompt ''add a hat'',
      SubmitEditForm]"

section \<open>Rendering and the camera effect leave the session fields alone\<close>

lemma render_session [simp]:
  "appState (render st) = appState st"
  "captureMode (render st) = captureMode st"
  "currentFile (render st) = currentFile st"
  "editPrompt (render st) = editPrompt st"
  "editedImage (render st) = editedImage st"
  "error (render st) = error st"
  "history (render st) = history st"
  "requests (render st) = requests st"
  "recorderCount (render st) = recorderCount st"
  "activeRecorders (render st) = activeRecorders st"
  "liveTracks (render st) = liveTracks st"
  by (simp_all add: render_def split: option.splits)

lemma stopStreamAndTrack_session [simp]:
  "appState (stopStreamAndTrack s st) = appState st"
  "captureMode (stopStreamAndTrack s st) = captureMode st"
  "currentFile (stopStreamAndTrack s st) = currentFile st"
  "editPrompt (stopStreamAndTrack s st) = editPrompt st"
  "editedImage (stopStreamAndTrack s st) = editedImage st"
  "error (stopStreamAndTrack s st) = error st"
  "history (stopStreamAndTrack s st) = history st"
  "requests (stopStreamAndTrack s st) = requests st"
  "recorderCount (stopStreamAndTrack s st) = recorderCount st"
  "activeRecorders (stopStreamAndTrack s st) = activeRecorders st"
  by (simp_all add: stopStreamAndTrack_def stopTracks_def Let_def split: option.splits)

lemma cameraEffect_session [simp]:
  "appState (cameraEffect st) = appState st"
  "captureMode (cameraEffect st) = captureMode st"
  "currentFile (cameraEffect st) = currentFile st"
  "editPrompt (cameraEffect st) = editPrompt st"
  "editedImage (cameraEffect st) = editedImage st"
  "error (cameraEffect st) = error st"
  "history (cameraEffect st) = history st"
  "requests (cameraEffect st) = requests st"
  "recorderCount (cameraEffect st) = recorderCount st"
  "activeRecorders (cameraEffect st) = activeRecorders st"
  by (simp_all add: cameraEffect_def startCamera_def Let_def)

lemma commit_session [simp]:
  "appState (commit old st) = appState st"
  "captureMode (commit old st) = captureMode st"
  "currentFile (commit old st) = currentFile st"
  "editPrompt (commit old st) = editPrompt st"
  "editedImage (commit old st) = editedImage st"
  "error (commit old st) = error st"
  "history (commit old st) = history st"
  "requests (commit old st) = requests st"
  "recorderCount (commit old st) = recorderCount st"
  "activeRecorders (commit old st) = activeRecorders st"
  by (simp_all add: commit_def cameraCleanup_def Let_def)

section \<open>Facts about the string helpers\<close>

lemma split_comma_no_comma: "CHR '','' \<notin> set d \<Longrightarrow> split_comma d = [d]"
  by (induction d) auto

lemma split_comma_first: "\<exists>ws. split_comma s = takeWhile (\<lambda>c. c \<noteq> CHR '','') s # ws"
  by (induction s) (auto split: list.splits)

text \<open>
  What \<open>split(',')[1]\<close> gives on the data URL that an accepted edit stores: the image
  data up to its first comma, which is all of it for base64 text.
\<close>

lemma split1_data_url:
  "split1 (''data:image/png;base64,'' @ d) = Some (takeWhile (\<lambda>c. c \<noteq> CHR '','') d)"
proof -
  obtain ws where "split_comma d = takeWhile (\<lambda>c. c \<noteq> CHR '','') d # ws"
    using split_comma_first by blast
  then show ?thesis
    by (simp add: split1_def)
qed

lemma split1_data_url_base64:
  "CHR '','' \<notin> set d \<Longrightarrow> split1 (''data:image/png;base64,'' @ d) = Some d"
  using split1_data_url [of d] by (auto simp add: takeWhile_eq_all_conv)

lemma editMimeTypes_append: "editMimeTypes (xs @ ys) = editMimeTypes xs @ editMimeTypes ys"
  by (induction xs rule: editMimeTypes.induct) simp_all

section \<open>The example states, evaluated\<close>

lemma cameraReady_fields:
  "appState cameraReady = IDLE"
  "captureMode cameraReady = PHOTO"
  "videoRef cameraReady \<noteq> None"
  "editedImage cameraReady = None"
  "mediaRecorderRef cameraReady = None"
  by code_simp+

lemma promptedPhoto_fields:
  "editFormRendered promptedPhoto"
  "\<not> submitDisabled promptedPhoto"
  "currentFile promptedPhoto = Some ((examplePhoto 1700)\<lparr>analysis := Some exampleAnalysis\<rparr>)"
  "editedImage promptedPhoto = None"
  "appState promptedPhoto = VIEWING"
  by code_simp+

lemma editingPhoto_fields:
  "appState editingPhoto = EDITING"
  "requests editingPhoto =
     [AnalyzeImage (Some ''QUJD'') ''image/jpeg'', EditImage (Some ''QUJD'') ''image/png'' ''make it blue'']"
  by code_simp+

lemma promptedEdited_fields:
  "editFormRendered promptedEdited"
  "\<not> submitDisabled promptedEdited"
  "currentFile promptedEdited = Some ((examplePhoto 1700)\<lparr>analysis := Some exampleAnalysis\<rparr>)"
  "editedImage promptedEdited = Some (''data:image/png;base64,'' @ ''QkxVRQ'')"
  by code_simp+


section \<open>Analysis always ends in the result view\<close>

lemma analysis_settled_fields:
  "appState (step (AnalysisSettled file outcome) st) = VIEWING
   \<and> currentFile (step (AnalysisSettled file (Resolved result)) st)
       = Some (file\<lparr>analysis := Some result\<rparr>)
   \<and> error (step (AnalysisSettled file Rejected) st) = Some ''Could not analyze image.''
   \<and> currentFile (step (AnalysisSettled file Rejected) st) = currentFile st"
  by (simp add: step_def performAnalysis_settled_def Let_def split: settled.splits)

lemma photo_analysis_run:
  assumes "captureMode st = PHOTO" and "videoRef st \<noteq> None" and "editedImage st = None"
  shows "(let photo = newImageFile now now' b ''image/jpeg'' ImageType;
              st1 = step (HandleCapture now now' (Some b)) st;
              st2 = step (AnalysisSettled photo outcome) st1
          in appState st1 = ANALYZING \<and> currentFile st1 = Some photo \<and> analysis photo = None
             \<and> requests st1 = requests st @ [AnalyzeImage (raw photo) ''image/jpeg'']
             \<and> appState st2 = VIEWING
             \<and> displayedImage st2 = Some b
             \<and> (case outcome of
                   Resolved result \<Rightarrow>
                     currentFile st2 = Some (photo\<lparr>analysis := Some result\<rparr>)
                     \<and> error st2 = error st
                 | Rejected \<Rightarrow>
                     currentFile st2 = Some photo
                     \<and> error st2 = Some ''Could not analyze image.''))"
  using assms
  by (auto simp add: step_def handleCapture_def capturePhoto_def performAnalysis_def
      performAnalysis_settled_def Let_def newImageFile_def displayedImage_def
      viewRendered_def imgSrc_def
      split: settled.splits option.splits)

lemma file_analysis_run:
  assumes "\<not> startsWith_video ftype"
  shows "(let file = newImageFile now now' b ftype ImageType;
              st1 = run [HandleFileSelect (Some ftype), FileRead ftype now now' (Resolved b)] st;
              st2 = step (AnalysisSettled file outcome) st1
          in appState st1 = ANALYZING \<and> currentFile st1 = Some file \<and> analysis file = None
             \<and> requests st1 = requests st @ [AnalyzeImage (raw file) ftype]
             \<and> appState st2 = VIEWING
             \<and> displayedImage st2 = Some b
             \<and> (case outcome of
                   Resolved result \<Rightarrow>
                     currentFile st2 = Some (file\<lparr>analysis := Some result\<rparr>)
                     \<and> error st2 = None
                 | Rejected \<Rightarrow>
                     currentFile st2 = Some file
                     \<and> error st2 = Some ''Could not analyze image.''))"
  using assms
  by (auto simp add: step_def handleFileSelect_def handleFileSelect_read_def performAnalysis_def
      performAnalysis_settled_def Let_def newImageFile_def displayedImage_def
      viewRendered_def imgSrc_def
      split: settled.splits option.splits)

text \<open>
  Claim C1. When the \<open>analyzeImage\<close> call of \<open>performAnalysis\<close> settles, whatever the
  state it settles in, the controller is in \<open>VIEWING\<close>; on success the current file is
  the analysed file with the result attached, on failure the error is
  \<open>Could not analyze image.\<close> and the current file is left as it was. For a photo
  (capture button in photo mode, with a video element mounted and no edited image left
  over) and for an uploaded file that is not a video, the whole run is: the new file
  becomes the current file without analysis, one \<open>analyzeImage\<close> call is issued, and
  after it settles the state is \<open>VIEWING\<close>, the image shown is the capture itself, and
  the current file is the capture, with the analysis on success and without it, plus
  the error message, on failure.
\<close>

theorem analysis_settles_in_viewing:
  "appState (step (AnalysisSettled file outcome) st) = VIEWING
   \<and> currentFile (step (AnalysisSettled file (Resolved result)) st)
       = Some (file\<lparr>analysis := Some result\<rparr>)
   \<and> error (step (AnalysisSettled file Rejected) st) = Some ''Could not analyze image.''
   \<and> currentFile (step (AnalysisSettled file Rejected) st) = currentFile st
   \<and> (captureMode st = PHOTO \<and> videoRef st \<noteq> None \<and> editedImage st = None \<longrightarrow>
        (let photo = newImageFile now now' b ''image/jpeg'' ImageType;
             st1 = step (HandleCapture now now' (Some b)) st;
             st2 = step (AnalysisSettled photo outcome) st1
         in appState st1 = ANALYZING \<and> currentFile st1 = Some photo \<and> analysis photo = None
            \<and> requests st1 = requests st @ [AnalyzeImage (raw photo) ''image/jpeg'']
            \<and> appState st2 = VIEWING
            \<and> displayedImage st2 = Some b
            \<and> (case outcome of
                  Resolved result \<Rightarrow>
                    currentFile st2 = Some (photo\<lparr>analysis := Some result\<rparr>)
                    \<and> error st2 = error st
                | Rejected \<Rightarrow>
                    currentFile st2 = Some photo
                    \<and> error st2 = Some ''Could not analyze image.'')))
   \<and> (\<not> startsWith_video ftype \<longrightarrow>
        (let file = newImageFile now now' b ftype ImageType;
             st1 = run [HandleFileSelect (Some ftype), FileRead ftype now now' (Resolved b)] st;
             st2 = step (AnalysisSettled file outcome) st1
         in appState st1 = ANALYZING \<and> currentFile st1 = Some file \<and> analysis file = None
            \<and> requests st1 = requests st @ [AnalyzeImage (raw file) ftype]
            \<and> appState st2 = VIEWING
            \<and> displayedImage st2 = Some b
            \<and> (case outcome of
                  Resolved result \<Rightarrow>
                    currentFile st2 = Some (file\<lparr>analysis := Some result\<rparr>)
                    \<and> error st2 = None
                | Rejected \<Rightarrow>
                    currentFile st2 = Some file
                    \<and> error st2 = Some ''Could not analyze image.'')))"
  using analysis_settled_fields [of "file" outcome st result]
    photo_analysis_run [of st now now' b outcome]
    file_analysis_run [of ftype now now' b st outcome]
  by blast

theorem analysis_settles_in_viewing_witness:
  "captureMode cameraReady = PHOTO \<and> videoRef cameraReady \<noteq> None
   \<and> editedImage cameraReady = None
   \<and> \<not> startsWith_video ''image/png''
   \<and> appState (step (AnalysisSettled (examplePhoto 1700) Rejected)
        (step (HandleCapture 1700 1700 (Some ''data:image/jpeg;base64,QUJD'')) cameraReady))
       = VIEWING
   \<and> currentFile (step (AnalysisSettled (examplePhoto 1700) Rejected)
        (step (HandleCapture 1700 1700 (Some ''data:image/jpeg;base64,QUJD'')) cameraReady))
       = Some (examplePhoto 1700)
   \<and> error (step (AnalysisSettled (examplePhoto 1700) Rejected)
        (step (HandleCapture 1700 1700 (Some ''data:image/jpeg;base64,QUJD'')) cameraReady))
       = Some ''Could not analyze image.''
   \<and> appState (step (AnalysisSettled
          (newImageFile 1700 1700 ''data:image/jpeg;base64,QUJD'' ''image/png'' ImageType) Rejected)
        (run [HandleFileSelect (Some ''image/png''),
              FileRead ''image/png'' 1700 1700 (Resolved ''data:image/jpeg;base64,QUJD'')]
           cameraReady))
       = VIEWING"
proof -
  have notVideo: "\<not> startsWith_video ''image/png''"
    by (simp add: startsWith_video_def)
  note run =
    analysis_settles_in_viewing [of "examplePhoto 1700" Rejected cameraReady exampleAnalysis
      1700 1700 "''data:image/jpeg;base64,QUJD''" "''image/png''"]
  show ?thesis
    using run notVideo cameraReady_fields
    unfolding Let_def examplePhoto_def
    by simp
qed

section \<open>An edit always ends in the result view\<close>

text \<open>
  Claim C3. When the \<open>editImage\<close> call of \<open>handleEditSubmit\<close> settles, whatever the state
  it settles in, the controller is in \<open>VIEWING\<close> and the current file is untouched. If
  the result carries image data (a non-empty \<open>imageData\<close>), the edited image becomes the
  PNG data URL of that data, and it is the image shown for an image file. If the result
  carries no image data (a refusal text only, or neither image nor text) or the call
  fails, the error is set (to the refusal text, to \<open>No changes generated.\<close>, or to
  \<open>Failed to edit image.\<close>), the edited image is unchanged, and so is the image shown
  while editing.
\<close>

theorem edit_settles_in_viewing:
  "appState (step (EditSettled outcome) st) = VIEWING
   \<and> currentFile (step (EditSettled outcome) st) = currentFile st
   \<and> (imageData r = Some d \<and> d \<noteq> [] \<longrightarrow>
        editedImage (step (EditSettled (Resolved r)) st) = Some (''data:image/png;base64,'' @ d)
        \<and> (\<forall>f. currentFile st = Some f \<and> file_type f = ImageType \<longrightarrow>
              displayedImage (step (EditSettled (Resolved r)) st)
                = Some (''data:image/png;base64,'' @ d)))
   \<and> (\<not> truthy (imageData r) \<longrightarrow>
        editedImage (step (EditSettled (Resolved r)) st) = editedImage st
        \<and> error (step (EditSettled (Resolved r)) st)
            = (if truthy (textResponse r) then textResponse r
               else Some ''No changes generated.'')
        \<and> error (step (EditSettled (Resolved r)) st) \<noteq> None
        \<and> (appState st = EDITING \<longrightarrow>
              displayedImage (step (EditSettled (Resolved r)) st) = displayedImage st))
   \<and> editedImage (step (EditSettled Rejected) st) = editedImage st
   \<and> error (step (EditSettled Rejected) st) = Some ''Failed to edit image.''
   \<and> (appState st = EDITING \<longrightarrow>
         displayedImage (step (EditSettled Rejected) st) = displayedImage st)"
  by (cases "textResponse r")
     (auto simp add: step_def handleEditSubmit_settled_def Let_def displayedImage_def
        viewRendered_def imgSrc_def
        split: settled.splits option.splits)

theorem edit_settles_in_viewing_witness:
  "appState editingPhoto = EDITING
   \<and> appState (step (EditSettled
         (Resolved \<lparr>imageData = Some ''QkxVRQ'', textResponse = None\<rparr>)) editingPhoto) = VIEWING
   \<and> displayedImage (step (EditSettled
         (Resolved \<lparr>imageData = Some ''QkxVRQ'', textResponse = None\<rparr>)) editingPhoto)
       = Some ''data:image/png;base64,QkxVRQ''
   \<and> error (step (EditSettled
         (Resolved \<lparr>imageData = None, textResponse = Some ''I cannot do that.''\<rparr>)) editingPhoto)
       = Some ''I cannot do that.''
   \<and> displayedImage (step (EditSettled
         (Resolved \<lparr>imageData = None, textResponse = Some ''I cannot do that.''\<rparr>)) editingPhoto)
       = displayedImage editingPhoto
   \<and> displayedImage (step (EditSettled Rejected) editingPhoto) = displayedImage editingPhoto"
proof -
  have current: "currentFile editingPhoto = Some ((examplePhoto 1700)\<lparr>analysis := Some exampleAnalysis\<rparr>)"
    by code_simp
  have image: "file_type ((examplePhoto 1700)\<lparr>analysis := Some exampleAnalysis\<rparr>) = ImageType"
    by (simp add: examplePhoto_def newImageFile_def)
  note accepted =
    edit_settles_in_viewing [of "Resolved \<lparr>imageData = Some ''QkxVRQ'', textResponse = None\<rparr>"
      editingPhoto "\<lparr>imageData = Some ''QkxVRQ'', textResponse = None\<rparr>" "''QkxVRQ''"]
  note refused =
    edit_settles_in_viewing [of Rejected editingPhoto
      "\<lparr>imageData = None, textResponse = Some ''I cannot do that.''\<rparr>" "''QkxVRQ''"]
  show ?thesis
    using accepted refused current image editingPhoto_fields(1)
    by simp
qed

section \<open>Edits chain through the edited image\<close>

lemma editedImage_step:
  "editedImage (step ev st) = editedImage st \<or> editedImage (step ev st) = None
   \<or> (\<exists>r d. ev = EditSettled (Resolved r) \<and> imageData r = Some d \<and> d \<noteq> []
         \<and> editedImage (step ev st) = Some (''data:image/png;base64,'' @ d))"
proof (cases ev)
  case (HandleCapture n n' fr)
  then show ?thesis
    by (simp add: step_def handleCapture_def capturePhoto_def performAnalysis_def
        startRecording_def stopRecording_def Let_def split: option.splits)
next
  case (EditSettled outcome)
  then show ?thesis
    by (cases outcome)
       (auto simp add: step_def handleEditSubmit_settled_def Let_def split: option.splits)
qed (simp_all add: step_def resetApp_def recorder_onstop_def recorder_onstop_settled_def
      handleFileSelect_def handleFileSelect_read_def handleFileSelect_videoSettled_def
      performAnalysis_settled_def performAnalysis_def submitEditForm_def handleEditSubmit_def
      restoreHistoryItem_def startCamera_settled_def render_def Let_def
      split: settled.splits option.splits)

text \<open>The Undo Edit button and the selection of a file clear the edited image as well.\<close>

lemma editedImage_also_cleared:
  "editedImage (step UndoEdit st) = None"
  "editedImage (step (HandleFileSelect (Some ftype)) st) = None"
  by (simp_all add: step_def handleFileSelect_def)

lemma submitEditForm_request:
  assumes "editFormRendered st" and "\<not> submitDisabled st" and "currentFile st = Some f"
  shows "requests (step SubmitEditForm st)
           = requests st @ [EditImage (sourceImageRaw st f) ''image/png'' (editPrompt st)]"
  using assms
  by (simp add: step_def submitEditForm_def handleEditSubmit_def editFormRendered_def
      submitDisabled_def)

text \<open>
  Claim C4. The payload of an edit request is \<open>sourceImageRaw\<close>: the payload \<open>raw\<close> of the
  current file when there is no edited image, and the image data of the edited image
  when there is one (for image data without a comma, as base64 text is). The edited
  image is set by a settled edit that returned image data; no other event sets it to a
  new image: every event leaves it as it was, clears it, or is such a successful edit.
  \<open>resetApp\<close> and \<open>restoreHistoryItem\<close> clear it, and after a restore the source of the
  next edit is the payload of the restored record.
\<close>

theorem edit_source_chain:
  "(editFormRendered st \<and> \<not> submitDisabled st \<and> currentFile st = Some f \<longrightarrow>
      requests (step SubmitEditForm st)
        = requests st @ [EditImage (sourceImageRaw st f) ''image/png'' (editPrompt st)])
   \<and> (editedImage st = None \<longrightarrow> sourceImageRaw st f = raw f)
   \<and> (CHR '','' \<notin> set d \<and> editedImage st = Some (''data:image/png;base64,'' @ d) \<longrightarrow>
        sourceImageRaw st f = Some d)
   \<and> (d \<noteq> [] \<longrightarrow>
        editedImage (step (EditSettled (Resolved \<lparr>imageData = Some d, textResponse = t\<rparr>)) st)
          = Some (''data:image/png;base64,'' @ d))
   \<and> (editedImage (step ev st) = editedImage st \<or> editedImage (step ev st) = None
        \<or> (\<exists>r d'. ev = EditSettled (Resolved r) \<and> imageData r = Some d' \<and> d' \<noteq> []
              \<and> editedImage (step ev st) = Some (''data:image/png;base64,'' @ d')))
   \<and> editedImage (step ResetApp st) = None
   \<and> editedImage (step (RestoreHistoryItem item) st) = None
   \<and> currentFile (step (RestoreHistoryItem item) st) = Some item
   \<and> sourceImageRaw (step (RestoreHistoryItem item) st) item = raw item"
proof -
  have source_original: "editedImage st = None \<longrightarrow> sourceImageRaw st f = raw f"
    by (simp add: sourceImageRaw_def)
  have source_edited:
    "CHR '','' \<notin> set d \<and> editedImage st = Some (''data:image/png;base64,'' @ d) \<longrightarrow>
       sourceImageRaw st f = Some d"
    using split1_data_url_base64 [of d] by (simp add: sourceImageRaw_def)
  have accepted:
    "d \<noteq> [] \<longrightarrow>
       editedImage (step (EditSettled (Resolved \<lparr>imageData = Some d, textResponse = t\<rparr>)) st)
         = Some (''data:image/png;base64,'' @ d)"
    by (simp add: step_def handleEditSubmit_settled_def)
  have cleared:
    "editedImage (step ResetApp st) = None"
    "editedImage (step (RestoreHistoryItem item) st) = None"
    "currentFile (step (RestoreHistoryItem item) st) = Some item"
    "sourceImageRaw (step (RestoreHistoryItem item) st) item = raw item"
    by (simp_all add: step_def resetApp_def restoreHistoryItem_def sourceImageRaw_def)
  show ?thesis
    using submitEditForm_request [of st f] source_original source_edited accepted
      editedImage_step [of ev st] cleared
    by blast
qed

theorem edit_source_chain_witness:
  "editFormRendered promptedPhoto \<and> \<not> submitDisabled promptedPhoto
   \<and> editedImage promptedPhoto = None
   \<and> requests (step SubmitEditForm promptedPhoto)
       = requests promptedPhoto @ [EditImage (Some ''QUJD'') ''image/png'' ''make it blue'']
   \<and> editFormRendered promptedEdited \<and> \<not> submitDisabled promptedEdited
   \<and> CHR '','' \<notin> set ''QkxVRQ''
   \<and> editedImage promptedEdited = Some (''data:image/png;base64,'' @ ''QkxVRQ'')
   \<and> requests (step SubmitEditForm promptedEdited)
       = requests promptedEdited @ [EditImage (Some ''QkxVRQ'') ''image/png'' ''add a hat'']"
proof -
  let ?f = "(examplePhoto 1700)\<lparr>analysis := Some exampleAnalysis\<rparr>"
  have payload: "raw ?f = Some ''QUJD''"
    by (simp add: examplePhoto_def newImageFile_def split1_def)
  have prompts: "editPrompt promptedPhoto = ''make it blue''" "editPrompt promptedEdited = ''add a hat''"
    by (simp_all add: promptedPhoto_def promptedEdited_def step_def)
  have base64: "CHR '','' \<notin> set ''QkxVRQ''"
    by simp
  note first = edit_source_chain [of promptedPhoto ?f "''QkxVRQ''" None ResetApp ?f]
  note second = edit_source_chain [of promptedEdited ?f "''QkxVRQ''" None ResetApp ?f]
  have one:
    "requests (step SubmitEditForm promptedPhoto)
       = requests promptedPhoto @ [EditImage (Some ''QUJD'') ''image/png'' ''make it blue'']"
    using first promptedPhoto_fields payload prompts(1) by metis
  have two:
    "requests (step SubmitEditForm promptedEdited)
       = requests promptedEdited @ [EditImage (Some ''QkxVRQ'') ''image/png'' ''add a hat'']"
    using second promptedEdited_fields base64 prompts(2) by metis
  show ?thesis
    using one two promptedPhoto_fields promptedEdited_fields base64 by blast
qed

section \<open>The history store is bounded\<close>

text \<open>
  Claim C2. For every history list and every record, \<open>addToHistory\<close> puts the record at
  the front and keeps the previous entries behind it in their order, and the result
  never has more than 50 entries. A list shorter than 50 loses nothing; appending to a
  list of exactly 50 entries drops its last (oldest) entry.
\<close>

theorem addToHistory_front_bounded:
  "addToHistory item prev = item # take 49 prev
   \<and> length (addToHistory item prev) \<le> 50
   \<and> (length prev < 50 \<longrightarrow> addToHistory item prev = item # prev)
   \<and> (length prev = 50 \<longrightarrow> addToHistory item prev = item # butlast prev)"
  by (simp add: addToHistory_def butlast_conv_take)

theorem addToHistory_front_bounded_witness:
  "length [examplePhoto 1] < 50
   \<and> addToHistory (examplePhoto 2) [examplePhoto 1] = [examplePhoto 2, examplePhoto 1]
   \<and> length (map examplePhoto [0..<50]) = 50
   \<and> addToHistory (examplePhoto 50) (map examplePhoto [0..<50])
       = examplePhoto 50 # butlast (map examplePhoto [0..<50])
   \<and> length (addToHistory (examplePhoto 50) (map examplePhoto [0..<50])) \<le> 50"
proof -
  have short: "length [examplePhoto 1] < 50"
    by simp
  have full: "length (map examplePhoto [0..<50]) = 50"
    by simp
  show ?thesis
    using short full
      addToHistory_front_bounded [of "examplePhoto 2" "[examplePhoto 1]"]
      addToHistory_front_bounded [of "examplePhoto 50" "map examplePhoto [0..<50]"]
    by blast
qed

section \<open>The history is committed once per capture\<close>

lemma history_step:
  "history (step ev st) = history st
   \<or> (\<exists>f result.
         (ev = AnalysisSettled f (Resolved result)
          \<or> ev = RecordedVideoSettled f (Resolved result)
          \<or> ev = FileVideoSettled f (Resolved result))
         \<and> history (step ev st) = addToHistory (f\<lparr>analysis := Some result\<rparr>) (history st))
   \<or> (\<exists>i. ev = DeleteHistoryItem i \<and> history (step ev st) = deleteHistoryItem i (history st))"
proof (cases ev)
  case (HandleCapture n n' fr)
  then show ?thesis
    by (simp add: step_def handleCapture_def capturePhoto_def performAnalysis_def
        startRecording_def stopRecording_def Let_def split: option.splits)
next
  case (AnalysisSettled f outcome)
  then show ?thesis
    by (cases outcome) (simp_all add: step_def performAnalysis_settled_def Let_def)
next
  case (RecordedVideoSettled f outcome)
  then show ?thesis
    by (cases outcome) (simp_all add: step_def recorder_onstop_settled_def Let_def)
next
  case (FileVideoSettled f outcome)
  then show ?thesis
    by (cases outcome) (simp_all add: step_def handleFileSelect_videoSettled_def Let_def)
qed (simp_all add: step_def resetApp_def recorder_onstop_def
      handleFileSelect_def handleFileSelect_read_def handleEditSubmit_settled_def
      performAnalysis_def submitEditForm_def handleEditSubmit_def
      restoreHistoryItem_def startCamera_settled_def render_def Let_def
      split: settled.splits option.splits)

text \<open>What each event of a capture does to the history, in any state.\<close>

lemma history_capture_start:
  "history (step (HandleCapture now now' frame) st) = history st"
  "history (step (RecorderStopped now now' read) st) = history st"
  "history (step (HandleFileSelect file) st) = history st"
  "history (step (FileRead ftype now now' read) st) = history st"
  by (simp_all add: step_def handleCapture_def capturePhoto_def performAnalysis_def
      startRecording_def stopRecording_def recorder_onstop_def handleFileSelect_def
      handleFileSelect_read_def Let_def split: option.splits settled.splits)

lemma history_capture_settled:
  "history (step (AnalysisSettled f (Resolved result)) st)
     = addToHistory (f\<lparr>analysis := Some result\<rparr>) (history st)"
  "history (step (AnalysisSettled f Rejected) st) = history st"
  "history (step (RecordedVideoSettled f (Resolved result)) st)
     = addToHistory (f\<lparr>analysis := Some result\<rparr>) (history st)"
  "history (step (RecordedVideoSettled f Rejected) st) = history st"
  "history (step (FileVideoSettled f (Resolved result)) st)
     = addToHistory (f\<lparr>analysis := Some result\<rparr>) (history st)"
  "history (step (FileVideoSettled f Rejected) st) = history st"
  by (simp_all add: step_def performAnalysis_settled_def recorder_onstop_settled_def
      handleFileSelect_videoSettled_def Let_def)

lemma history_restore:
  "history (step (RestoreHistoryItem item) st) = history st"
  "requests (step (RestoreHistoryItem item) st) = requests st"
  "history (step ResetApp st) = history st"
  by (simp_all add: step_def restoreHistoryItem_def resetApp_def)

text \<open>
  Claim C5. The history changes only when an analysis call settles with a result,
  which adds the analysed file once with \<open>addToHistory\<close>, or when the user deletes a
  record; every other event leaves it as it was. Each of the three analysis calls
  commits exactly when it succeeds: \<open>analyzeImage\<close> in \<open>performAnalysis\<close>, \<open>analyzeVideo\<close>
  after a recording, and \<open>analyzeVideo\<close> for an uploaded video add the analysed file on
  success and leave the history unchanged on failure. The events that start a capture
  (the capture button, the end of the recording, the selection and the reading of a
  file) commit nothing, so a photo, a recorded video, an uploaded image and an uploaded
  video each end with one \<open>addToHistory\<close> after a successful analysis.
  \<open>restoreHistoryItem\<close> changes neither the history nor the list of service calls, also
  after the capture it restores.
\<close>

theorem history_commit_once:
  "(history (step ev st) = history st
    \<or> (\<exists>f result.
          (ev = AnalysisSettled f (Resolved result)
           \<or> ev = RecordedVideoSettled f (Resolved result)
           \<or> ev = FileVideoSettled f (Resolved result))
          \<and> history (step ev st) = addToHistory (f\<lparr>analysis := Some result\<rparr>) (history st))
    \<or> (\<exists>i. ev = DeleteHistoryItem i
          \<and> history (step ev st) = deleteHistoryItem i (history st)))
   \<and> history (step (AnalysisSettled photo (Resolved result)) st)
       = addToHistory (photo\<lparr>analysis := Some result\<rparr>) (history st)
   \<and> history (step (AnalysisSettled photo Rejected) st) = history st
   \<and> history (step (RecordedVideoSettled photo (Resolved result)) st)
       = addToHistory (photo\<lparr>analysis := Some result\<rparr>) (history st)
   \<and> history (step (RecordedVideoSettled photo Rejected) st) = history st
   \<and> history (step (FileVideoSettled photo (Resolved result)) st)
       = addToHistory (photo\<lparr>analysis := Some result\<rparr>) (history st)
   \<and> history (step (FileVideoSettled photo Rejected) st) = history st
   \<and> history (step (HandleCapture now now' frame) st) = history st
   \<and> history (step (RecorderStopped now now' read) st) = history st
   \<and> history (step (HandleFileSelect file) st) = history st
   \<and> history (step (FileRead ftype now now' read) st) = history st
   \<and> history (step (RestoreHistoryItem item) st) = history st
   \<and> requests (step (RestoreHistoryItem item) st) = requests st
   \<and> history (run [HandleCapture now now' frame, AnalysisSettled photo (Resolved result),
                    ResetApp, RestoreHistoryItem (photo\<lparr>analysis := Some result\<rparr>)] st)
       = addToHistory (photo\<lparr>analysis := Some result\<rparr>) (history st)
   \<and> history (run [HandleCapture now now' frame, HandleCapture now now' frame,
                    RecorderStopped now now' read,
                    RecordedVideoSettled photo (Resolved result),
                    ResetApp, RestoreHistoryItem (photo\<lparr>analysis := Some result\<rparr>)] st)
       = addToHistory (photo\<lparr>analysis := Some result\<rparr>) (history st)
   \<and> history (run [HandleFileSelect file, FileRead ftype now now' read,
                    FileVideoSettled photo (Resolved result),
                    ResetApp, RestoreHistoryItem (photo\<lparr>analysis := Some result\<rparr>)] st)
       = addToHistory (photo\<lparr>analysis := Some result\<rparr>) (history st)
   \<and> history (run [HandleFileSelect file, FileRead ftype now now' read,
                    AnalysisSettled photo (Resolved result),
                    ResetApp, RestoreHistoryItem (photo\<lparr>analysis := Some result\<rparr>)] st)
       = addToHistory (photo\<lparr>analysis := Some result\<rparr>) (history st)"
proof -
  have photo_run:
    "history (run [HandleCapture now now' frame, AnalysisSettled photo (Resolved result),
                   ResetApp, RestoreHistoryItem (photo\<lparr>analysis := Some result\<rparr>)] st)
       = addToHistory (photo\<lparr>analysis := Some result\<rparr>) (history st)"
    by (simp add: history_capture_start history_capture_settled history_restore)
  have recorded_run:
    "history (run [HandleCapture now now' frame, HandleCapture now now' frame,
                   RecorderStopped now now' read,
                   RecordedVideoSettled photo (Resolved result),
                   ResetApp, RestoreHistoryItem (photo\<lparr>analysis := Some result\<rparr>)] st)
       = addToHistory (photo\<lparr>analysis := Some result\<rparr>) (history st)"
    by (simp add: history_capture_start history_capture_settled history_restore)
  have uploaded_video_run:
    "history (run [HandleFileSelect file, FileRead ftype now now' read,
                   FileVideoSettled photo (Resolved result),
                   ResetApp, RestoreHistoryItem (photo\<lparr>analysis := Some result\<rparr>)] st)
       = addToHistory (photo\<lparr>analysis := Some result\<rparr>) (history st)"
    by (simp add: history_capture_start history_capture_settled history_restore)
  have uploaded_image_run:
    "history (run [HandleFileSelect file, FileRead ftype now now' read,
                   AnalysisSettled photo (Resolved result),
                   ResetApp, RestoreHistoryItem (photo\<lparr>analysis := Some result\<rparr>)] st)
       = addToHistory (photo\<lparr>analysis := Some result\<rparr>) (history st)"
    by (simp add: history_capture_start history_capture_settled history_restore)
  show ?thesis
    by (intro conjI history_step photo_run recorded_run uploaded_video_run uploaded_image_run)
       (simp_all add: history_capture_start history_capture_settled history_restore)
qed

section \<open>Edit calls that overlap\<close>

text \<open>
  \<open>handleEditSubmit\<close> itself does not look at \<open>appState\<close>: called with an image file and
  a non-blank prompt it issues a call in any state.
\<close>

lemma handleEditSubmit_ignores_appState:
  assumes "currentFile st = Some f" and "file_type f = ImageType"
    and "js_trim (editPrompt st) \<noteq> []"
  shows "requests (handleEditSubmit st)
           = requests st @ [EditImage (sourceImageRaw st f) ''image/png'' (editPrompt st)]"
  using assms by (simp add: handleEditSubmit_def)

lemma no_edit_request_while_editing:
  assumes "appState st = EDITING"
  shows "\<exists>rs. requests (step ev st) = requests st @ rs \<and> editMimeTypes rs = []"
proof (cases ev)
  case (HandleCapture n n' fr)
  then show ?thesis
    by (simp add: step_def handleCapture_def capturePhoto_def performAnalysis_def
        startRecording_def stopRecording_def Let_def split: option.splits)
next
  case SubmitEditForm
  then show ?thesis
    using assms by (simp add: step_def submitEditForm_def submitDisabled_def)
qed (simp_all add: step_def resetApp_def recorder_onstop_def recorder_onstop_settled_def
      handleFileSelect_def handleFileSelect_read_def handleFileSelect_videoSettled_def
      performAnalysis_settled_def handleEditSubmit_settled_def performAnalysis_def
      restoreHistoryItem_def startCamera_settled_def render_def Let_def
      split: settled.splits option.splits)

lemma no_edit_request_while_staying:
  "staysIn EDITING evs st \<Longrightarrow>
   editMimeTypes (requests (run evs st)) = editMimeTypes (requests st)"
proof (induction evs arbitrary: st)
  case Nil
  then show ?case by simp
next
  case (Cons ev evs)
  then have editing: "appState st = EDITING" and rest: "staysIn EDITING evs (step ev st)"
    by simp_all
  obtain rs where "requests (step ev st) = requests st @ rs" "editMimeTypes rs = []"
    using no_edit_request_while_editing [OF editing] by blast
  then have "editMimeTypes (requests (step ev st)) = editMimeTypes (requests st)"
    by (simp add: editMimeTypes_append)
  then show ?case
    using Cons.IH [OF rest] by simp
qed

text \<open>
  What the code does guarantee. While the state is \<open>EDITING\<close> the submit button of the
  edit form is disabled, so an attempt to submit the form does not reach
  \<open>handleEditSubmit\<close>; no event at all issues an \<open>editImage\<close> call in a state that is
  \<open>EDITING\<close>, so for as long as the state stays \<open>EDITING\<close> the edit calls issued are
  those issued before.
\<close>

lemma submit_ignored_while_editing:
  assumes "appState st = EDITING"
  shows "submitEditForm st = st
     \<and> requests (step SubmitEditForm st) = requests st
     \<and> appState (step SubmitEditForm st) = EDITING
     \<and> (\<exists>rs. requests (step ev st) = requests st @ rs \<and> editMimeTypes rs = [])
     \<and> (staysIn EDITING evs st \<longrightarrow>
          editMimeTypes (requests (run evs st)) = editMimeTypes (requests st))"
proof -
  have "submitEditForm st = st"
    "requests (step SubmitEditForm st) = requests st"
    "appState (step SubmitEditForm st) = EDITING"
    using assms by (simp_all add: step_def submitEditForm_def submitDisabled_def)
  then show ?thesis
    using no_edit_request_while_editing [OF assms, of ev]
      no_edit_request_while_staying [of evs st]
    by blast
qed

text \<open>
  Claim C6 fails on the code. The guard is on \<open>appState\<close>, and \<open>appState\<close> does not stay
  \<open>EDITING\<close> until the edit call settles: the continuation of \<open>handleFileSelect\<close> sets
  \<open>ANALYZING\<close> and the continuation of \<open>performAnalysis\<close> sets \<open>VIEWING\<close> in whatever state
  they run. In \<open>secondEditRun\<close> every action of the user happens in \<open>IDLE\<close> or in
  \<open>VIEWING\<close> (the events in \<open>EDITING\<close> and \<open>ANALYZING\<close> are the reading of the file and
  the analysis settling). No edit call settles during the run, the last event issues a
  second \<open>editImage\<close> call, and two edit calls are outstanding at its end.
\<close>

theorem second_edit_call_outstanding:
  "statesBefore secondEditRun viewingPhoto
     = [VIEWING, IDLE, IDLE, IDLE, VIEWING, VIEWING, EDITING, ANALYZING, VIEWING, VIEWING]
   \<and> filter isEditSettled secondEditRun = []
   \<and> requests viewingPhoto = [AnalyzeImage (Some ''QUJD'') ''image/jpeg'']
   \<and> requests (run secondEditRun viewingPhoto)
       = [AnalyzeImage (Some ''QUJD'') ''image/jpeg'',
          EditImage (Some ''QUJD'') ''image/png'' ''make it blue'',
          AnalyzeImage (Some ''UE5H'') ''image/png'',
          EditImage (Some ''UE5H'') ''image/png'' ''add a hat'']
   \<and> editCallsOutstanding secondEditRun viewingPhoto = 2
   \<and> appState (run secondEditRun viewingPhoto) = EDITING"
  by code_simp

section \<open>Loading a stored history\<close>

lemma mounted_fields:
  "history (mounted h) = h"
  "appState (mounted h) = IDLE"
  "requests (mounted h) = []"
  by (simp_all add: mounted_def initial_def)

text \<open>
  What loading gives, for every store: the component is mounted with the empty history
  when the key is absent, the stored string is empty or \<open>JSON.parse\<close> throws; with the
  parsed list when the parsed value is an array of records; and with the parsed value
  as its history, unchecked, when it is anything else.
\<close>

lemma mount_cases:
  "mount parse asHistory saved
     = (case saved of
          None \<Rightarrow> WellTyped (mounted [])
        | Some s \<Rightarrow>
            if s = [] then WellTyped (mounted [])
            else (case parse s of
                    None \<Rightarrow> WellTyped (mounted [])
                  | Some v \<Rightarrow>
                      (case asHistory v of
                         Some h \<Rightarrow> WellTyped (mounted h)
                       | None \<Rightarrow> IllTyped v)))"
  by (simp add: mount_def loadHistory_def mounted_def initial_def render_def videoRendered_def
      split: option.splits)

lemma mount_examples:
  "mount exampleParse exampleAsHistory None = WellTyped (mounted [])"
  "mount exampleParse exampleAsHistory (Some ''[7,'') = WellTyped (mounted [])"
  "mount exampleParse exampleAsHistory (Some ''[]'') = WellTyped (mounted [])"
  "mount exampleParse exampleAsHistory (Some ''[7,3]'') = IllTyped (JArray [JNumber 7, JNumber 3])"
  by (simp_all add: mount_cases exampleParse_def)

text \<open>
  Claim C7 fails on the code. The stored payload \<open>null\<close> parses, so the \<open>catch\<close> does not
  run, and the value \<open>null\<close> is passed to \<open>setHistory\<close>: the history is then neither a
  parsed sequence nor the empty history, and showing the history panel throws.
\<close>

theorem load_stores_non_array:
  "exampleParse ''null'' = Some JNull
   \<and> exampleAsHistory JNull = None
   \<and> mount exampleParse exampleAsHistory (Some ''null'') = IllTyped JNull
   \<and> historyLength JNull = Inl TypeError"
  by (simp add: mount_cases exampleParse_def)

section \<open>Recording is guarded by the capture button\<close>






section \<open>The camera while recording\<close>

text \<open>
  When \<open>appState\<close> changes, the cleanup of the camera effect stops every track of the
  stream that the effect holds, whatever the new state is.
\<close>

lemma commit_stops_effect_stream:
  assumes "appState new \<noteq> appState old" and "effectStream new = Some s"
  shows "set (liveTracks (commit old new)) \<inter> set (getTracks s) = {}"
  using assms
  by (auto simp add: commit_def Let_def cameraCleanup_def cameraEffect_def startCamera_def
      stopStreamAndTrack_def stopTracks_def render_def split: option.splits)

text \<open>
  Claim C9 fails on the code. In \<open>videoReady\<close> the state is \<open>IDLE\<close> in video mode and the
  camera and microphone tracks are live. Pressing the capture button starts recorder 0
  on that stream and moves to \<open>RECORDING\<close>; the change of \<open>appState\<close> runs the cleanup of
  the camera effect, the new run of the effect does not open the camera because the
  state is not \<open>IDLE\<close>, and in \<open>RECORDING\<close> no track is live any more.
\<close>

theorem camera_released_on_recording:
  "appState videoReady = IDLE
   \<and> captureMode videoReady = VIDEO
   \<and> liveTracks videoReady = [VideoTrack 1, AudioTrack 1]
   \<and> appState (step (HandleCapture 1700 1700 None) videoReady) = RECORDING
   \<and> activeRecorders (step (HandleCapture 1700 1700 None) videoReady) = [0]
   \<and> liveTracks (step (HandleCapture 1700 1700 None) videoReady) = []"
  by code_simp

text \<open>
  A \<open>getUserMedia\<close> call that settles after the state has left \<open>IDLE\<close> opens the camera
  all the same: here the user selects an image file before the camera has opened, and
  the camera track is live in \<open>ANALYZING\<close>.
\<close>

lemma camera_opened_after_leaving_idle:
  "appState (run [HandleFileSelect (Some ''image/png''),
                  FileRead ''image/png'' 5 5 (Resolved ''data:image/png;base64,QUJD''),
                  GetUserMediaSettled 1 False (Resolved ())] (mounted []))
     = ANALYZING
   \<and> liveTracks (run [HandleFileSelect (Some ''image/png''),
                  FileRead ''image/png'' 5 5 (Resolved ''data:image/png;base64,QUJD''),
                  GetUserMediaSettled 1 False (Resolved ())] (mounted []))
     = [VideoTrack 0]"
  by code_simp

section \<open>Edit requests are declared as PNG\<close>

lemma requests_step:
  "\<exists>rs. requests (step ev st) = requests st @ rs \<and> set (editMimeTypes rs) \<subseteq> {''image/png''}"
proof (cases ev)
  case (HandleCapture n n' fr)
  then show ?thesis
    by (simp add: step_def handleCapture_def capturePhoto_def performAnalysis_def
        startRecording_def stopRecording_def Let_def split: option.splits)
qed (simp_all add: step_def resetApp_def recorder_onstop_def recorder_onstop_settled_def
      handleFileSelect_def handleFileSelect_read_def handleFileSelect_videoSettled_def
      performAnalysis_settled_def handleEditSubmit_settled_def
      performAnalysis_def submitEditForm_def handleEditSubmit_def
      restoreHistoryItem_def startCamera_settled_def render_def Let_def
      split: settled.splits option.splits)

lemma requests_run:
  "set (editMimeTypes (requests st)) \<subseteq> {''image/png''} \<Longrightarrow>
   set (editMimeTypes (requests (run evs st))) \<subseteq> {''image/png''}"
proof (induction evs arbitrary: st)
  case Nil
  then show ?case by simp
next
  case (Cons ev evs)
  obtain rs where rs: "requests (step ev st) = requests st @ rs"
    "set (editMimeTypes rs) \<subseteq> {''image/png''}"
    using requests_step by blast
  have "set (editMimeTypes (requests (step ev st))) \<subseteq> {''image/png''}"
    using Cons.prems rs by (simp add: editMimeTypes_append)
  then show ?case
    using Cons.IH by simp
qed

lemma mount_requests:
  "mount parse asHistory saved = WellTyped st \<Longrightarrow> requests st = []"
  by (auto simp add: mount_cases mounted_fields split: option.splits if_splits)

text \<open>
  Claim C10. After any sequence of events from mounting, whatever history the load has
  left, every \<open>editImage\<close> call that has been issued declares the mime type
  \<open>image/png\<close>; a single event adds calls of that mime type only. In particular,
  submitting the edit form for a current file whose own mime type is \<open>image/jpeg\<close>
  issues the call with \<open>image/png\<close>.
\<close>

theorem edit_request_declares_png:
  "set (editMimeTypes (requests (run evs (mounted h)))) \<subseteq> {''image/png''}
   \<and> (mount parse asHistory saved = WellTyped st0 \<longrightarrow>
        set (editMimeTypes (requests (run evs st0))) \<subseteq> {''image/png''})
   \<and> (\<exists>rs. requests (step ev st) = requests st @ rs
          \<and> set (editMimeTypes rs) \<subseteq> {''image/png''})
   \<and> (editFormRendered st \<and> \<not> submitDisabled st \<and> currentFile st = Some f
       \<and> mimeType f = ''image/jpeg'' \<longrightarrow>
        requests (step SubmitEditForm st)
          = requests st @ [EditImage (sourceImageRaw st f) ''image/png'' (editPrompt st)])"
proof -
  have "set (editMimeTypes (requests (mounted h))) \<subseteq> {''image/png''}"
    by (simp add: mounted_fields)
  then have from_mounted:
    "set (editMimeTypes (requests (run evs (mounted h)))) \<subseteq> {''image/png''}"
    by (rule requests_run)
  have from_mount:
    "mount parse asHistory saved = WellTyped st0 \<longrightarrow>
       set (editMimeTypes (requests (run evs st0))) \<subseteq> {''image/png''}"
  proof
    assume "mount parse asHistory saved = WellTyped st0"
    then have "requests st0 = []"
      by (rule mount_requests)
    then have "set (editMimeTypes (requests st0)) \<subseteq> {''image/png''}"
      by simp
    then show "set (editMimeTypes (requests (run evs st0))) \<subseteq> {''image/png''}"
      by (rule requests_run)
  qed
  show ?thesis
    using from_mounted from_mount requests_step [of ev st] submitEditForm_request [of st f]
    by blast
qed

theorem edit_request_declares_png_witness:
  "mount exampleParse exampleAsHistory None = WellTyped (mounted [])
   \<and> editFormRendered promptedPhoto \<and> \<not> submitDisabled promptedPhoto
   \<and> currentFile promptedPhoto = Some ((examplePhoto 1700)\<lparr>analysis := Some exampleAnalysis\<rparr>)
   \<and> mimeType ((examplePhoto 1700)\<lparr>analysis := Some exampleAnalysis\<rparr>) = ''image/jpeg''
   \<and> requests (step SubmitEditForm promptedPhoto)
       = requests promptedPhoto @ [EditImage (Some ''QUJD'') ''image/png'' ''make it blue'']"
proof -
  let ?f = "(examplePhoto 1700)\<lparr>analysis := Some exampleAnalysis\<rparr>"
  have jpeg: "mimeType ?f = ''image/jpeg''"
    by (simp add: examplePhoto_def newImageFile_def)
  have source: "sourceImageRaw promptedPhoto ?f = Some ''QUJD''"
    using promptedPhoto_fields(4)
    by (simp add: sourceImageRaw_def examplePhoto_def newImageFile_def split1_def)
  have prompt: "editPrompt promptedPhoto = ''make it blue''"
    by (simp add: promptedPhoto_def step_def)
  have "requests (step SubmitEditForm promptedPhoto)
          = requests promptedPhoto
            @ [EditImage (sourceImageRaw promptedPhoto ?f) ''image/png'' (editPrompt promptedPhoto)]"
    using edit_request_declares_png
        [of "[]" "[]" exampleParse exampleAsHistory None "mounted []" SubmitEditForm
          promptedPhoto ?f]
      promptedPhoto_fields jpeg
    by blast
  then show ?thesis
    using promptedPhoto_fields jpeg source prompt mount_examples(1) by simp
qed

end
